theory Spec2Isabelle
  imports Complex_Main
begin

section \<open>Training utilities of breakhis\_gradcam (utils.py)\<close>

text \<open>
  The module works on float tensors. The embedding computes over the real numbers:
  rounding is not modelled, and a float computation that yields NaN (the mean of an
  empty tensor) is reported as the outcome \<open>NotANumber\<close>, since the reals have no such
  value. The random draws of \<open>mixup_data\<close> (the Beta samples and the permutation) are
  arguments of the model. The network, the autograd engine, the optimizer and the loss
  function belong to the numeric library and are parameters.
\<close>

subsection \<open>Outcomes\<close>

datatype error =
    ZeroDivisionError
  | ValueError
  | TypeError
  | RuntimeError
  | FileNotFoundError
  | NotANumber

definition bind_err :: "error + 'a \<Rightarrow> ('a \<Rightarrow> error + 'b) \<Rightarrow> error + 'b" where
  "bind_err m f = (case m of Inl e \<Rightarrow> Inl e | Inr v \<Rightarrow> f v)"

subsection \<open>Tensor operations used by the module\<close>

text \<open>\<open>t.mean()\<close> over all elements of a tensor; NaN on an empty tensor.\<close>

definition tensor_mean :: "real list \<Rightarrow> error + real" where
  "tensor_mean xs = (if xs = [] then Inl NotANumber else Inr (sum_list xs / real (length xs)))"

text \<open>\<open>t.item()\<close>: the value of a tensor with exactly one element.\<close>

fun item :: "real list \<Rightarrow> error + real" where
  "item [v] = Inr v"
| "item _ = Inl ValueError"

text \<open>\<open>t[index]\<close> along the first dimension.\<close>

definition gather :: "'a list \<Rightarrow> nat list \<Rightarrow> 'a list" where
  "gather xs index = map (\<lambda>i. xs ! i) index"

text \<open>What \<open>torch.randperm(n)\<close> returns: a permutation of \<open>0..n-1\<close>.\<close>

definition is_randperm :: "nat \<Rightarrow> nat list \<Rightarrow> bool" where
  "is_randperm n index = (sort index = [0..<n])"

subsection \<open>Loss functions\<close>

text \<open>
  A criterion object of the library: a loss per example and a reduction. With
  \<open>ReduceNone\<close> the result has one element per example, otherwise it is a scalar
  (represented by a one-element list). A prediction and a target of different batch
  sizes are rejected.
\<close>

datatype reduction = ReduceNone | ReduceMean | ReduceSum

record 'o criterion =
  ell :: "'o \<Rightarrow> int \<Rightarrow> real"
  reduction :: reduction

definition per_example :: "'o criterion \<Rightarrow> 'o list \<Rightarrow> int list \<Rightarrow> real list" where
  "per_example c pred y = map (\<lambda>(p, t). ell c p t) (zip pred y)"

definition criterion_call :: "'o criterion \<Rightarrow> 'o list \<Rightarrow> int list \<Rightarrow> error + real list" where
  "criterion_call c pred y =
     (if length pred \<noteq> length y then Inl ValueError
      else case reduction c of
        ReduceNone \<Rightarrow> Inr (per_example c pred y)
      | ReduceMean \<Rightarrow> bind_err (tensor_mean (per_example c pred y)) (\<lambda>m. Inr [m])
      | ReduceSum \<Rightarrow> Inr [sum_list (per_example c pred y)])"

subsection \<open>mixup\_data\<close>

text \<open>
  \<open>lam\<close> is the Python float \<open>1.\<close> when \<open>alpha \<le> 0\<close>, and otherwise a tensor of shape
  \<open>(batch_size, 1, 1, 1)\<close> holding one coefficient per example.
\<close>

datatype lam = LamFloat real | LamTensor "real list"

text \<open>
  \<open>lam * x + (1 - lam) * x2\<close> for image batches of shape \<open>(batch_size, c, h, w)\<close>: a
  float scales every example alike, a tensor of shape \<open>(batch_size, 1, 1, 1)\<close> scales
  example \<open>i\<close> by its entry \<open>i\<close>.
\<close>

definition mix_images :: "lam \<Rightarrow> ('a::real_vector) list \<Rightarrow> 'a list \<Rightarrow> 'a list" where
  "mix_images lm x x2 =
     (case lm of
        LamFloat l \<Rightarrow> map (\<lambda>(a, b). l *\<^sub>R a + (1 - l) *\<^sub>R b) (zip x x2)
      | LamTensor ls \<Rightarrow> map (\<lambda>(l, a, b). l *\<^sub>R a + (1 - l) *\<^sub>R b) (zip ls (zip x x2)))"

text \<open>
  \<open>lam * a + (1 - lam) * b\<close> for tensors \<open>a\<close>, \<open>b\<close> of shape \<open>(m)\<close> or \<open>()\<close>, given as
  their elements. With a float the shape stays (one row). With \<open>lam\<close> of shape
  \<open>(n, 1, 1, 1)\<close> broadcasting gives shape \<open>(n, 1, 1, m)\<close>: row \<open>i\<close> is the whole of
  \<open>a\<close> and \<open>b\<close> mixed with \<open>lam[i]\<close>.
\<close>

definition mix_flat :: "lam \<Rightarrow> real list \<Rightarrow> real list \<Rightarrow> real list list" where
  "mix_flat lm a b =
     (case lm of
        LamFloat l \<Rightarrow> [map (\<lambda>(u, v). l * u + (1 - l) * v) (zip a b)]
      | LamTensor ls \<Rightarrow> map (\<lambda>l. map (\<lambda>(u, v). l * u + (1 - l) * v) (zip a b)) ls)"

text \<open>\<open>(pred == row).sum()\<close> for a prediction and one row of targets.\<close>

definition count_equal :: "int list \<Rightarrow> real list \<Rightarrow> nat" where
  "count_equal pred row = length (filter (\<lambda>(p, t). real_of_int p = t) (zip pred row))"

record ('a, 'o) mixup =
  mixed_x :: "'a list"
  y_a :: "int list"
  y_b :: "int list"
  lam :: lam
  mixup_criterion :: "'o list \<Rightarrow> error + real"
  mixup_acc :: "int list \<Rightarrow> nat"

text \<open>
  \<open>beta\<close> stands for the draw \<open>np.random.beta(alpha, alpha, batch_size)\<close>, a list of
  \<open>batch_size\<close> samples, and \<open>index\<close> for \<open>torch.randperm(batch_size)\<close>. The batch \<open>x\<close>
  has shape \<open>(batch_size, c, h, w)\<close> and \<open>y\<close> holds one class index per example. The two
  closures that the function returns are fields of the result.
\<close>

definition mixup_data ::
  "real list \<Rightarrow> nat list \<Rightarrow> ('a::real_vector) list \<Rightarrow> int list \<Rightarrow> 'o criterion \<Rightarrow> real
     \<Rightarrow> ('a, 'o) mixup" where
  "mixup_data beta index x y crit alpha =
     (let lm = (if alpha > 0 then LamTensor (map (\<lambda>b. max b (1 - b)) beta) else LamFloat 1);
          ya = y;
          yb = gather y index;
          mixed_y = mix_flat lm (map real_of_int ya) (map real_of_int yb)
      in \<lparr> mixed_x = mix_images lm x (gather x index),
           y_a = ya,
           y_b = yb,
           lam = lm,
           mixup_criterion = (\<lambda>pred.
              bind_err (criterion_call crit pred ya) (\<lambda>ca.
              bind_err (criterion_call crit pred yb) (\<lambda>cb.
                tensor_mean (concat (mix_flat lm ca cb))))),
           mixup_acc = (\<lambda>pred. sum_list (map (count_equal pred) mixed_y)) \<rparr>)"


subsection \<open>The epoch loops\<close>

text \<open>
  A batch of images is a tensor of shape \<open>(bs, c, h, w)\<close>, a batch for test-time
  augmentation one of shape \<open>(bs, n_aug, c, h, w)\<close>: a list of \<open>bs\<close> rows, each holding
  the \<open>n_aug\<close> views of one example. An image is a point of a real vector space, and so
  is a row of the network's output.
\<close>

datatype 'a tensor = T4 "'a list" | T5 "'a list list"

text \<open>
  The network: \<open>forward w t\<close> is \<open>model(t)\<close> under the weights \<open>w\<close>, one output row per
  input row, and \<open>argmax\<close> is \<open>torch.argmax(row, -1)\<close>. The state \<open>w\<close> stands for all
  that training mutates (weights, optimizer and scheduler state).
\<close>

record ('w, 'a, 'o) network =
  forward :: "'w \<Rightarrow> 'a tensor \<Rightarrow> 'o list"
  argmax :: "'o \<Rightarrow> int"

record 'x dataloader =
  batches :: "('x \<times> int list) list"
  dataset_len :: nat

record stats =
  total_n :: nat
  total_loss :: real
  total_correct :: real

text \<open>
  The three accumulator updates of the loop body:
  \<open>total_loss += loss.item() * len(y)\<close>, \<open>total_correct += correct\<close>, \<open>total += len(y)\<close>.
\<close>

definition add_batch :: "stats \<Rightarrow> real \<Rightarrow> nat \<Rightarrow> nat \<Rightarrow> stats" where
  "add_batch s loss correct n =
     \<lparr> total_n = total_n s + n,
       total_loss = total_loss s + loss * real n,
       total_correct = total_correct s + real correct \<rparr>"

text \<open>
  The progress report at the end of the loop body. \<open>i % logging_frequency\<close> raises for
  a zero frequency; when the report is due its three quotients are computed:
  \<open>total_loss / total\<close>, \<open>total_correct / len(dataloader.dataset)\<close> and that divided by
  \<open>i / len(dataloader)\<close>. The message itself goes to the logging subsystem and is not
  modelled.
\<close>

definition log_progress ::
  "int \<Rightarrow> nat \<Rightarrow> nat \<Rightarrow> nat \<Rightarrow> stats \<Rightarrow> error + (real \<times> real \<times> real) option" where
  "log_progress logging_frequency i n_batches ds_len s =
     (if logging_frequency = 0 then Inl ZeroDivisionError
      else if int i mod logging_frequency = 0 \<and> i > 0 then
        (if total_n s = 0 then Inl ZeroDivisionError
         else if ds_len = 0 then Inl ZeroDivisionError
         else if n_batches = 0 then Inl ZeroDivisionError
         else Inr (Some (total_loss s / real (total_n s),
                         total_correct s / real ds_len,
                         (total_correct s / real ds_len) / (real i / real n_batches))))
      else Inr None)"

text \<open>\<open>final_loss, final_acc = total_loss / total, total_correct / total\<close>.\<close>

definition final_stats :: "stats \<Rightarrow> error + real \<times> real" where
  "final_stats s =
     (if total_n s = 0 then Inl ZeroDivisionError
      else Inr (total_loss s / real (total_n s), total_correct s / real (total_n s)))"

subsection \<open>train\<close>

text \<open>
  The loop body up to the progress report. \<open>optimizer w m\<close> is the state after
  \<open>zero_grad\<close>, \<open>loss.backward()\<close> and \<open>optimizer.step()\<close> on the mixed batch \<open>m\<close>;
  \<open>scheduler\<close> is \<open>None\<close> or the scheduler's step; \<open>d\<close> holds the random draws of the
  iteration. The argument \<open>epoch\<close> of the source only appears in log messages and is left
  out.
\<close>

definition train_batch ::
  "('w, 'a::real_vector, 'o) network \<Rightarrow> 'o criterion \<Rightarrow> ('w \<Rightarrow> ('a, 'o) mixup \<Rightarrow> 'w)
     \<Rightarrow> ('w \<Rightarrow> 'w) option \<Rightarrow> bool \<Rightarrow> real \<Rightarrow> real list \<times> nat list \<Rightarrow> 'w
     \<Rightarrow> 'a list \<times> int list \<Rightarrow> error + (real \<times> nat \<times> nat) \<times> 'w" where
  "train_batch net crit optimizer scheduler mixup alpha d w b =
     (case b of (x, y) \<Rightarrow>
        let m = mixup_data (fst d) (snd d) x y crit (if mixup then alpha else 0);
            output = forward net w (T4 (mixed_x m));
            prediction = map (argmax net) output
        in bind_err (mixup_criterion m output) (\<lambda>loss.
             let w1 = optimizer w m;
                 w2 = (case scheduler of None \<Rightarrow> w1 | Some sched \<Rightarrow> sched w1)
             in Inr ((loss, mixup_acc m prediction, length y), w2)))"

fun train_loop ::
  "('w, 'a::real_vector, 'o) network \<Rightarrow> 'o criterion \<Rightarrow> ('w \<Rightarrow> ('a, 'o) mixup \<Rightarrow> 'w)
     \<Rightarrow> ('w \<Rightarrow> 'w) option \<Rightarrow> bool \<Rightarrow> real \<Rightarrow> int \<Rightarrow> nat \<Rightarrow> nat
     \<Rightarrow> (nat \<Rightarrow> real list \<times> nat list) \<Rightarrow> nat \<Rightarrow> 'w \<Rightarrow> stats
     \<Rightarrow> ('a list \<times> int list) list \<Rightarrow> error + 'w \<times> stats" where
  "train_loop net crit optimizer scheduler mixup alpha lf n_batches ds_len draws i w s [] =
     Inr (w, s)"
| "train_loop net crit optimizer scheduler mixup alpha lf n_batches ds_len draws i w s
       (b # rest) =
     bind_err (train_batch net crit optimizer scheduler mixup alpha (draws i) w b)
       (\<lambda>((loss, correct, n), w').
          let s' = add_batch s loss correct n
          in bind_err (log_progress lf i n_batches ds_len s') (\<lambda>_.
               train_loop net crit optimizer scheduler mixup alpha lf n_batches ds_len draws
                 (Suc i) w' s' rest))"

definition train ::
  "('w, 'a::real_vector, 'o) network \<Rightarrow> 'w \<Rightarrow> 'a list dataloader \<Rightarrow> 'o criterion
     \<Rightarrow> ('w \<Rightarrow> ('a, 'o) mixup \<Rightarrow> 'w) \<Rightarrow> ('w \<Rightarrow> 'w) option \<Rightarrow> bool \<Rightarrow> real \<Rightarrow> int
     \<Rightarrow> (nat \<Rightarrow> real list \<times> nat list) \<Rightarrow> error + (real \<times> real) \<times> 'w" where
  "train net w dl crit optimizer scheduler mixup alpha logging_frequency draws =
     bind_err (train_loop net crit optimizer scheduler mixup alpha logging_frequency
                 (length (batches dl)) (dataset_len dl) draws 0 w
                 \<lparr>total_n = 0, total_loss = 0, total_correct = 0\<rparr> (batches dl))
       (\<lambda>(w', s). bind_err (final_stats s) (\<lambda>r. Inr (r, w')))"

subsection \<open>validate\<close>

text \<open>
  The blend of test-time augmentation for one example, from the outputs of its views:
  \<open>(1 - tta_mixing) * output[-1] + tta_mixing * output[:-1].mean()\<close>.
\<close>

definition tta_blend :: "real \<Rightarrow> ('o::real_vector) list \<Rightarrow> 'o" where
  "tta_blend tta_mixing views =
     (1 - tta_mixing) *\<^sub>R last views
       + tta_mixing *\<^sub>R ((1 / real (length (butlast views))) *\<^sub>R sum_list (butlast views))"

text \<open>
  The output of the loop body. With \<open>tta\<close>, unpacking \<open>x.size()\<close> into five names raises
  on a 4-D batch; the views are flattened by \<open>x.view(-1, c, h, w)\<close>, and the model's
  output is regrouped by \<open>.view(bs, n_aug, -1)\<close>, which raises on a tensor without
  elements (an output whose number of rows is not \<open>bs * n_aug\<close> is reported alike).
  With a single view the mean over the other views is the mean of nothing, NaN.
\<close>

definition validate_output ::
  "('w, 'a, 'o::real_vector) network \<Rightarrow> 'w \<Rightarrow> bool \<Rightarrow> real \<Rightarrow> 'a tensor \<Rightarrow> error + 'o list" where
  "validate_output net w tta tta_mixing x =
     (if tta then
        (case x of
           T4 _ \<Rightarrow> Inl ValueError
         | T5 rows \<Rightarrow>
             (let bs = length rows;
                  n_aug = (case rows of [] \<Rightarrow> 0 | r # _ \<Rightarrow> length r);
                  out = forward net w (T4 (concat rows))
              in if bs * n_aug = 0 \<or> length out \<noteq> bs * n_aug then Inl RuntimeError
                 else if n_aug = 1 then Inl NotANumber
                 else Inr (map (\<lambda>b. tta_blend tta_mixing (take n_aug (drop (b * n_aug) out)))
                             [0..<bs])))
      else Inr (forward net w x))"

text \<open>\<open>(prediction == y).sum().item()\<close>.\<close>

definition count_correct :: "int list \<Rightarrow> int list \<Rightarrow> nat" where
  "count_correct prediction y = length (filter (\<lambda>(p, t). p = t) (zip prediction y))"

definition validate_batch ::
  "('w, 'a, 'o::real_vector) network \<Rightarrow> 'w \<Rightarrow> 'o criterion \<Rightarrow> bool \<Rightarrow> real
     \<Rightarrow> 'a tensor \<times> int list \<Rightarrow> error + real \<times> nat \<times> nat" where
  "validate_batch net w crit tta tta_mixing b =
     (case b of (x, y) \<Rightarrow>
        bind_err (validate_output net w tta tta_mixing x) (\<lambda>output.
          let prediction = map (argmax net) output
          in bind_err (criterion_call crit output y) (\<lambda>l.
             bind_err (item l) (\<lambda>loss.
               Inr (loss, count_correct prediction y, length y)))))"

fun validate_loop ::
  "('w, 'a, 'o::real_vector) network \<Rightarrow> 'w \<Rightarrow> 'o criterion \<Rightarrow> bool \<Rightarrow> real \<Rightarrow> int
     \<Rightarrow> nat \<Rightarrow> nat \<Rightarrow> nat \<Rightarrow> stats \<Rightarrow> ('a tensor \<times> int list) list \<Rightarrow> error + stats" where
  "validate_loop net w crit tta tta_mixing lf n_batches ds_len i s [] = Inr s"
| "validate_loop net w crit tta tta_mixing lf n_batches ds_len i s (b # rest) =
     bind_err (validate_batch net w crit tta tta_mixing b)
       (\<lambda>(loss, correct, n).
          let s' = add_batch s loss correct n
          in bind_err (log_progress lf i n_batches ds_len s') (\<lambda>_.
               validate_loop net w crit tta tta_mixing lf n_batches ds_len (Suc i) s' rest))"

definition validate ::
  "('w, 'a, 'o::real_vector) network \<Rightarrow> 'w \<Rightarrow> 'a tensor dataloader \<Rightarrow> 'o criterion
     \<Rightarrow> bool \<Rightarrow> real \<Rightarrow> int \<Rightarrow> error + real \<times> real" where
  "validate net w dl crit tta tta_mixing logging_frequency =
     bind_err (validate_loop net w crit tta tta_mixing logging_frequency
                 (length (batches dl)) (dataset_len dl) 0
                 \<lparr>total_n = 0, total_loss = 0, total_correct = 0\<rparr> (batches dl))
       final_stats"

subsection \<open>The results of the batches\<close>

text \<open>
  For stating what the loops return: the results (loss, count, size) of the batches that
  \<open>train\<close> processes, each computed in the state its predecessors left, and the three
  sums over such results.
\<close>

fun train_trace ::
  "('w, 'a::real_vector, 'o) network \<Rightarrow> 'o criterion \<Rightarrow> ('w \<Rightarrow> ('a, 'o) mixup \<Rightarrow> 'w)
     \<Rightarrow> ('w \<Rightarrow> 'w) option \<Rightarrow> bool \<Rightarrow> real \<Rightarrow> (nat \<Rightarrow> real list \<times> nat list) \<Rightarrow> nat \<Rightarrow> 'w
     \<Rightarrow> ('a list \<times> int list) list \<Rightarrow> (real \<times> nat \<times> nat) list" where
  "train_trace net crit optimizer scheduler mixup alpha draws i w [] = []"
| "train_trace net crit optimizer scheduler mixup alpha draws i w (b # rest) =
     (case train_batch net crit optimizer scheduler mixup alpha (draws i) w b of
        Inl e \<Rightarrow> []
      | Inr (r, w') \<Rightarrow> r # train_trace net crit optimizer scheduler mixup alpha draws (Suc i) w' rest)"

definition sum_n :: "(real \<times> nat \<times> nat) list \<Rightarrow> nat" where
  "sum_n rs = sum_list (map (\<lambda>(loss, correct, n). n) rs)"

definition sum_loss :: "(real \<times> nat \<times> nat) list \<Rightarrow> real" where
  "sum_loss rs = sum_list (map (\<lambda>(loss, correct, n). loss * real n) rs)"

definition sum_correct :: "(real \<times> nat \<times> nat) list \<Rightarrow> nat" where
  "sum_correct rs = sum_list (map (\<lambda>(loss, correct, n). correct) rs)"

text \<open>
  The claim about test-time augmentation, in the spec's words: the plain average of the
  outputs of all views of an example, each view counting alike.
\<close>

definition spec_tta_average :: "('o::real_vector) list \<Rightarrow> 'o" where
  "spec_tta_average views = (1 / real (length views)) *\<^sub>R sum_list views"

subsection \<open>get\_param\_lr\_maps\<close>

text \<open>
  Of the model the function reads \<open>named_parameters()\<close>, the (name, parameter) pairs in
  order, and \<open>out_fc.parameters()\<close>. The value under \<open>'params'\<close> of a group is a list of
  parameters, a list of (name, parameter) tuples, or a single parameter, as the code
  builds it. The factor is a float, a pair, or something else (an int, say), which the
  code tries to unpack as a pair.
\<close>

record 'p model =
  named_parameters :: "(string \<times> 'p) list"
  out_fc_parameters :: "'p list"

datatype 'p params =
    ParamList "'p list"
  | NamedList "(string \<times> 'p) list"
  | Param 'p

record 'p param_group =
  params :: "'p params"
  lr :: real

datatype factor = FloatFactor real | PairFactor real real | IntFactor int

text \<open>\<open>param.split('.')[0]\<close>.\<close>

definition first_component :: "string \<Rightarrow> string" where
  "first_component name = takeWhile (\<lambda>c. c \<noteq> CHR ''.'') name"

text \<open>
  \<open>np.geomspace(start, stop, num)\<close>: \<open>num\<close> points from \<open>start\<close> to \<open>stop\<close> at a constant
  ratio, \<open>start * (stop / start) ** (i / (num - 1))\<close>, the two endpoints set exactly. A
  zero endpoint raises \<open>ValueError\<close>; with endpoints of opposite sign the inner points are
  logarithms of negative numbers, NaN.
\<close>

definition geom_point :: "real \<Rightarrow> real \<Rightarrow> nat \<Rightarrow> nat \<Rightarrow> real" where
  "geom_point start stop num i =
     (if i = 0 then start
      else if i = num - 1 then stop
      else start * (stop / start) powr (real i / real (num - 1)))"

definition geomspace :: "real \<Rightarrow> real \<Rightarrow> nat \<Rightarrow> error + real list" where
  "geomspace start stop num =
     (if start = 0 \<or> stop = 0 then Inl ValueError
      else if start * stop < 0 \<and> 2 < num then Inl NotANumber
      else Inr (map (geom_point start stop num) [0..<num]))"

text \<open>
  The list comprehension over \<open>model.named_parameters()\<close>. In it \<open>param\<close> is the name
  and \<open>_\<close> the parameter, and both are kept.
\<close>

definition body_parameters :: "'p model \<Rightarrow> (string \<times> 'p) list" where
  "body_parameters model =
     filter (\<lambda>(param, _). first_component param \<noteq> ''out_fc'') (named_parameters model)"

definition get_param_lr_maps :: "'p model \<Rightarrow> real \<Rightarrow> factor \<Rightarrow> error + 'p param_group list" where
  "get_param_lr_maps model base_lr finetune_body_factor =
     (case finetune_body_factor of
        FloatFactor f \<Rightarrow>
          Inr [\<lparr>params = NamedList (body_parameters model), lr = base_lr * f\<rparr>,
               \<lparr>params = ParamList (out_fc_parameters model), lr = base_lr\<rparr>]
      | PairFactor lower_bound_factor upper_bound_factor \<Rightarrow>
          bind_err (geomspace (base_lr * lower_bound_factor) (base_lr * upper_bound_factor)
                      (length (body_parameters model)))
            (\<lambda>lrs. Inr (map (\<lambda>((_, param), lr). \<lparr>params = Param param, lr = lr\<rparr>)
                           (zip (body_parameters model) lrs)
                         @ [\<lparr>params = ParamList (out_fc_parameters model), lr = base_lr\<rparr>]))
      | IntFactor _ \<Rightarrow> Inl TypeError)"

subsection \<open>setup\_optimizer\_and\_scheduler\<close>


subsection \<open>checkpoint\_state\<close>












subsection \<open>Concrete inputs\<close>

text \<open>A loss used in the examples: the squared distance to the label, averaged.\<close>

definition squared_error :: "real criterion" where
  "squared_error = \<lparr>ell = (\<lambda>p t. (p - real_of_int t)\<^sup>2), reduction = ReduceMean\<rparr>"

text \<open>
  A network with one output per image and a single class: the output row is the image
  itself and the argmax of a one-element row is \<open>0\<close>.
\<close>

definition identity_net :: "(unit, real, real) network" where
  "identity_net =
     \<lparr> forward = (\<lambda>w t. case t of T4 xs \<Rightarrow> xs | T5 rows \<Rightarrow> concat rows),
       argmax = (\<lambda>row. 0) \<rparr>"

text \<open>A model with two body parameters and the two parameters of the head \<open>out_fc\<close>.\<close>

definition small_model :: "nat model" where
  "small_model =
     \<lparr> named_parameters =
         [(''conv1.weight'', 0), (''layer1.0.weight'', 1), (''out_fc.weight'', 2),
          (''out_fc.bias'', 3)],
       out_fc_parameters = [2, 3] \<rparr>"


section \<open>Properties\<close>

lemma bind_err_simps:
  "bind_err (Inl e) f = Inl e"
  "bind_err (Inr v) f = f v"
  by (simp_all add: bind_err_def)

subsection \<open>Helper lemmas\<close>

lemma length_gather: "length (gather xs index) = length index"
  by (simp add: gather_def)

lemma is_randperm_length: "is_randperm n index \<Longrightarrow> length index = n"
proof -
  assume "is_randperm n index"
  then have "length (sort index) = length [0..<n]" by (simp add: is_randperm_def)
  then show ?thesis by simp
qed

lemma map_fst_zip_le: "length xs \<le> length ys \<Longrightarrow> map (\<lambda>(a, b). a) (zip xs ys) = xs"
  by (induction xs arbitrary: ys) (auto simp: Suc_le_length_iff)

lemma mix_images_float_one:
  "length x \<le> length x2 \<Longrightarrow> mix_images (LamFloat 1) x x2 = x"
  using map_fst_zip_le [of x x2] by (simp add: mix_images_def)

lemma mix_flat_float_one:
  "length a \<le> length b \<Longrightarrow> mix_flat (LamFloat 1) a b = [a]"
  using map_fst_zip_le [of a b] by (simp add: mix_flat_def)

lemma criterion_call_length:
  "criterion_call c pred y = Inr ca \<Longrightarrow> length y' = length y
     \<Longrightarrow> \<exists>cb. criterion_call c pred y' = Inr cb \<and> length cb = length ca"
  by (auto simp: criterion_call_def per_example_def tensor_mean_def bind_err_def
           split: if_splits reduction.splits sum.splits)

subsection \<open>mixup\_data\<close>

lemma sum_list_bounds:
  fixes ls :: "real list"
  assumes "\<forall>l \<in> set ls. a \<le> l \<and> l \<le> b"
  shows "a * real (length ls) \<le> sum_list ls \<and> sum_list ls \<le> b * real (length ls)"
  using assms by (induction ls) (auto simp: algebra_simps)

lemma mean_bounds:
  fixes ls :: "real list"
  assumes "\<forall>l \<in> set ls. a \<le> l \<and> l \<le> b" and "ls \<noteq> []"
  shows "a \<le> sum_list ls / real (length ls) \<and> sum_list ls / real (length ls) \<le> b"
proof -
  have n: "0 < real (length ls)"
    using assms(2) by simp
  from sum_list_bounds [OF assms(1)] show ?thesis
    using n by (simp add: pos_le_divide_eq pos_divide_le_eq)
qed

text \<open>
  C9: for \<open>alpha > 0\<close> and Beta samples in \<open>[0, 1]\<close>, \<open>lam\<close> is a tensor with one
  coefficient per sample, each the larger of the sample and its complement, and every
  coefficient lies in \<open>[1/2, 1]\<close>; so does their batch mean, the weight that the loss
  gives to the first target.
\<close>

theorem mixup_lam_range:
  assumes "alpha > 0" and "\<forall>b \<in> set beta. 0 \<le> b \<and> b \<le> 1"
  shows "\<exists>ls. lam (mixup_data beta index x y crit alpha) = LamTensor ls
              \<and> length ls = length beta
              \<and> (\<forall>i < length beta. ls ! i = max (beta ! i) (1 - beta ! i))
              \<and> (\<forall>l \<in> set ls. 1 / 2 \<le> l \<and> l \<le> 1)
              \<and> (beta \<noteq> [] \<longrightarrow> 1 / 2 \<le> sum_list ls / real (length ls)
                                \<and> sum_list ls / real (length ls) \<le> 1)"
proof -
  let ?ls = "map (\<lambda>b. max b (1 - b)) beta"
  have "lam (mixup_data beta index x y crit alpha) = LamTensor ?ls"
    using assms(1) by (simp add: mixup_data_def Let_def)
  moreover have rng: "\<forall>l \<in> set ?ls. 1 / 2 \<le> l \<and> l \<le> 1"
    using assms(2) by (auto simp: max_def)
  moreover have "length ?ls = length beta"
    by simp
  moreover have "\<forall>i < length beta. ?ls ! i = max (beta ! i) (1 - beta ! i)"
    by simp
  moreover have "beta \<noteq> [] \<longrightarrow> 1 / 2 \<le> sum_list ?ls / real (length ?ls)
                                \<and> sum_list ?ls / real (length ?ls) \<le> 1"
  proof
    assume "beta \<noteq> []"
    then have "?ls \<noteq> []" by simp
    with rng show "1 / 2 \<le> sum_list ?ls / real (length ?ls)
                     \<and> sum_list ?ls / real (length ?ls) \<le> 1"
      by (rule mean_bounds)
  qed
  ultimately show ?thesis by blast
qed

theorem mixup_lam_range_witness:
  "\<exists>ls. lam (mixup_data [1/4, 9/10] [1, 0] [1::real, 2] [0, 1] squared_error (2/5))
            = LamTensor ls
      \<and> length ls = 2
      \<and> (\<forall>l \<in> set ls. 1 / 2 \<le> l \<and> l \<le> 1)
      \<and> 1 / 2 \<le> sum_list ls / real (length ls) \<and> sum_list ls / real (length ls) \<le> 1"
proof -
  have a: "(2/5::real) > 0" by simp
  have b: "\<forall>b \<in> set [1/4, 9/10::real]. 0 \<le> b \<and> b \<le> 1" by simp
  have c: "[1/4, 9/10::real] \<noteq> []" by simp
  from mixup_lam_range [OF a b, of "[1, 0]" "[1::real, 2]" "[0, 1]" squared_error] c
  show ?thesis by auto
qed

lemma count_equal_int: "count_equal pred (map real_of_int y) = count_correct pred y"
proof -
  have "filter (\<lambda>(p, t). real_of_int p = t) (zip pred (map real_of_int y))
          = map (\<lambda>(p, t). (p, real_of_int t)) (filter (\<lambda>(p, t). p = t) (zip pred y))"
    by (induction pred y rule: list_induct2') auto
  then show ?thesis
    by (simp add: count_equal_def count_correct_def)
qed

lemma mixup_criterion_no_mixup:
  assumes "alpha \<le> 0" and "length index = length y"
  shows "mixup_criterion (mixup_data beta index x y crit alpha) pred
           = bind_err (criterion_call crit pred y) tensor_mean"
proof (cases "criterion_call crit pred y")
  case (Inl e)
  then show ?thesis
    using assms(1) by (simp add: mixup_data_def Let_def bind_err_simps)
next
  case (Inr ca)
  have "length (gather y index) = length y"
    using assms(2) by (simp add: length_gather)
  from criterion_call_length [OF Inr this]
  obtain cb where "criterion_call crit pred (gather y index) = Inr cb" "length cb = length ca"
    by blast
  then show ?thesis
    using assms(1) Inr by (simp add: mixup_data_def Let_def bind_err_simps mix_flat_float_one)
qed

lemma mixup_acc_no_mixup:
  assumes "alpha \<le> 0" and "length index = length y"
  shows "mixup_acc (mixup_data beta index x y crit alpha) p = count_correct p y"
proof -
  have "length (gather y index) = length y"
    using assms(2) by (simp add: length_gather)
  then have "mixup_acc (mixup_data beta index x y crit alpha) p = count_equal p (map real_of_int y)"
    using assms(1) by (simp add: mixup_data_def Let_def mix_flat_float_one)
  then show ?thesis
    by (simp only: count_equal_int)
qed

lemma mixed_x_no_mixup:
  assumes "alpha \<le> 0" and "length index = length x"
  shows "mixed_x (mixup_data beta index x y crit alpha) = x"
  using assms by (simp add: mixup_data_def Let_def mix_images_float_one length_gather)

text \<open>
  C8: for \<open>alpha \<le> 0\<close> mixup is the identity augmentation: \<open>lam\<close> is \<open>1\<close>, the mixed
  input is \<open>x\<close>, the first target is \<open>y\<close>, the mixup criterion is the plain mean of
  \<open>criterion(pred, y)\<close>, and \<open>mixup_acc\<close> counts the predictions equal to their label.
\<close>

theorem mixup_identity:
  assumes "alpha \<le> 0" and "is_randperm (length x) index" and "length y = length x"
  shows "mixed_x (mixup_data beta index x y crit alpha) = x
       \<and> y_a (mixup_data beta index x y crit alpha) = y
       \<and> lam (mixup_data beta index x y crit alpha) = LamFloat 1
       \<and> mixup_criterion (mixup_data beta index x y crit alpha) pred
           = bind_err (criterion_call crit pred y) tensor_mean
       \<and> mixup_acc (mixup_data beta index x y crit alpha) p = count_correct p y"
proof -
  let ?r = "mixup_data beta index x y crit alpha"
  have len: "length index = length x"
    using assms(2) by (rule is_randperm_length)
  then have leny: "length index = length y"
    using assms(3) by simp
  have lm: "lam ?r = LamFloat 1"
    using assms(1) by (simp add: mixup_data_def Let_def)
  have ya: "y_a ?r = y"
    by (simp add: mixup_data_def Let_def)
  have mx: "mixed_x ?r = x"
    using assms(1) len by (rule mixed_x_no_mixup)
  have cr: "mixup_criterion ?r pred = bind_err (criterion_call crit pred y) tensor_mean"
    using assms(1) leny by (rule mixup_criterion_no_mixup)
  have acc: "mixup_acc ?r p = count_correct p y"
    using assms(1) leny by (rule mixup_acc_no_mixup)
  from mx ya lm cr acc show ?thesis by blast
qed

theorem mixup_identity_witness:
  "mixed_x (mixup_data [] [1, 0] [1::real, 2] [0, 1] squared_error 0) = [1, 2]
   \<and> y_a (mixup_data [] [1, 0] [1::real, 2] [0, 1] squared_error 0) = [0, 1]
   \<and> mixup_criterion (mixup_data [] [1, 0] [1::real, 2] [0, 1] squared_error 0) [0, 3] = Inr 2
   \<and> mixup_acc (mixup_data [] [1, 0] [1::real, 2] [0, 1] squared_error 0) [0, 0] = 1"
proof -
  have a: "(0::real) \<le> 0" by simp
  have b: "is_randperm (length [1::real, 2]) [1, 0]" by (simp add: is_randperm_def)
  have c: "length [0::int, 1] = length [1::real, 2]" by simp
  have d: "bind_err (criterion_call squared_error [0, 3] [0, 1]) tensor_mean = Inr 2"
    by (simp add: squared_error_def criterion_call_def per_example_def tensor_mean_def bind_err_def)
  have e: "count_correct [0, 0] [0, 1] = 1"
    by (simp add: count_correct_def)
  from mixup_identity [OF a b c, where crit = squared_error and pred = "[0, 3]" and p = "[0, 0]"
      and beta = "[]"] d e
  show ?thesis by simp
qed

text \<open>
  For \<open>alpha > 0\<close> the inputs are mixed per example: example \<open>i\<close> with coefficient
  \<open>lam[i]\<close> and its partner \<open>x[index[i]]\<close> with \<open>1 - lam[i]\<close>. The loss is not: \<open>lam\<close> has
  shape \<open>(n, 1, 1, 1)\<close> and the criterion returns a scalar, so the mean runs over
  \<open>lam[i] * c_a + (1 - lam[i]) * c_b\<close> and every example's loss is weighted by the batch
  mean of \<open>lam\<close>.
\<close>

lemma mixup_mixed_x_nth:
  assumes "alpha > 0" and "length beta = length x" and "is_randperm (length x) index"
    and "i < length x"
  shows "mixed_x (mixup_data beta index x y crit alpha) ! i
           = max (beta ! i) (1 - beta ! i) *\<^sub>R (x ! i)
             + (1 - max (beta ! i) (1 - beta ! i)) *\<^sub>R (x ! (index ! i))"
proof -
  have len: "length index = length x"
    using assms(3) by (rule is_randperm_length)
  show ?thesis
    using assms(1,2,4) len
    by (simp add: mixup_data_def Let_def mix_images_def gather_def)
qed

lemma sum_list_affine:
  "sum_list (map (\<lambda>l. l * a + (1 - l) * b) ls)
     = sum_list ls * a + (real (length ls) - sum_list ls) * (b::real)"
  by (induction ls) (simp_all add: algebra_simps)

lemma mix_flat_tensor_scalars:
  "concat (mix_flat (LamTensor ls) [a] [b]) = map (\<lambda>l. l * a + (1 - l) * b) ls"
  by (induction ls) (simp_all add: mix_flat_def)

lemma affine_mean:
  "n \<noteq> 0 \<Longrightarrow> (S * a + (n - S) * b) / n = (S / n) * a + (1 - S / n) * (b::real)"
  by (simp add: field_simps)

lemma mixup_criterion_batch_mean:
  assumes "alpha > 0" and "reduction crit = ReduceMean"
    and "length pred = length y" and "length index = length y" and "y \<noteq> []" and "beta \<noteq> []"
  shows "mixup_criterion (mixup_data beta index x y crit alpha) pred
           = Inr (let ls = map (\<lambda>b. max b (1 - b)) beta;
                      lbar = sum_list ls / real (length ls);
                      ca = sum_list (per_example crit pred y) / real (length y);
                      cb = sum_list (per_example crit pred (gather y index)) / real (length y)
                  in lbar * ca + (1 - lbar) * cb)"
proof -
  let ?ls = "map (\<lambda>b. max b (1 - b)) beta"
  let ?ca = "sum_list (per_example crit pred y) / real (length y)"
  let ?cb = "sum_list (per_example crit pred (gather y index)) / real (length y)"
  have pe: "per_example crit pred y \<noteq> []" "per_example crit pred (gather y index) \<noteq> []"
    "length (per_example crit pred y) = length y"
    "length (per_example crit pred (gather y index)) = length y"
    using assms(3,4,5) by (auto simp: per_example_def gather_def)
  have ca: "criterion_call crit pred y = Inr [?ca]"
    using assms(2,3) pe by (simp add: criterion_call_def tensor_mean_def bind_err_def)
  have cb: "criterion_call crit pred (gather y index) = Inr [?cb]"
    using assms(2,3,4) pe by (simp add: criterion_call_def tensor_mean_def bind_err_def gather_def)
  have flat: "concat (mix_flat (LamTensor ?ls) [?ca] [?cb])
                = map (\<lambda>l. l * ?ca + (1 - l) * ?cb) ?ls"
    by (rule mix_flat_tensor_scalars)
  have n: "real (length beta) \<noteq> 0"
    using assms(6) by simp
  have "mixup_criterion (mixup_data beta index x y crit alpha) pred
          = tensor_mean (map (\<lambda>l. l * ?ca + (1 - l) * ?cb) ?ls)"
    using assms(1) ca cb flat by (simp add: mixup_data_def Let_def bind_err_simps)
  also have "\<dots> = Inr ((sum_list ?ls * ?ca + (real (length ?ls) - sum_list ?ls) * ?cb)
                        / real (length ?ls))"
    using assms(6) by (simp only: tensor_mean_def sum_list_affine) simp
  also have "(sum_list ?ls * ?ca + (real (length ?ls) - sum_list ?ls) * ?cb) / real (length ?ls)
        = (sum_list ?ls / real (length ?ls)) * ?ca + (1 - sum_list ?ls / real (length ?ls)) * ?cb"
    using n unfolding length_map by (rule affine_mean)
  finally show ?thesis by (simp add: Let_def)
qed


subsection \<open>Test-time augmentation\<close>

lemma tta_blend_nth:
  assumes "length views = n" and "2 \<le> n"
  shows "tta_blend m views
           = (1 - m) *\<^sub>R views ! (n - 1)
             + (m / real (n - 1)) *\<^sub>R (\<Sum>v = 0..<n - 1. views ! v)"
proof -
  have ne: "views \<noteq> []" using assms by auto
  have l: "last views = views ! (n - 1)"
    using ne assms(1) by (simp add: last_conv_nth)
  have "sum_list (butlast views) = (\<Sum>v = 0..<length (butlast views). butlast views ! v)"
    by (rule sum_list_sum_nth)
  also have "\<dots> = (\<Sum>v = 0..<n - 1. views ! v)"
    using assms(1) by (simp add: nth_butlast)
  finally have s: "sum_list (butlast views) = (\<Sum>v = 0..<n - 1. views ! v)" .
  show ?thesis
    using assms(1) by (simp add: tta_blend_def l s)
qed

lemma views_length:
  assumes "length out = bs * n" and "b < bs"
  shows "length (take n (drop (b * n) out)) = n"
proof -
  have "b * n + n \<le> bs * n"
    using assms(2) by (metis Suc_leI mult_Suc mult_le_mono1 add.commute)
  then show ?thesis
    using assms(1) by simp
qed

lemma views_nth:
  assumes "length out = bs * n" and "b < bs" and "v < n"
  shows "take n (drop (b * n) out) ! v = out ! (b * n + v)"
proof -
  have "b * n \<le> bs * n"
    using assms(2) by simp
  then have "b * n \<le> length out"
    using assms(1) by simp
  then show ?thesis
    using assms(3) by (simp add: nth_drop)
qed

text \<open>
  C3 (as the code has it): with \<open>tta=True\<close>, on a batch of \<open>bs \<ge> 1\<close> examples with
  \<open>n_aug \<ge> 2\<close> views each, the output of an example is the blend
  \<open>(1 - tta_mixing) * (output of its last view) + tta_mixing * (mean of the outputs of its
  other n_aug - 1 views)\<close>, and the argmax and the loss are taken of this blend.
\<close>

theorem validate_tta_blend:
  assumes "rows \<noteq> []" and "\<forall>r \<in> set rows. length r = n_aug" and "2 \<le> n_aug"
    and "length (forward net w (T4 (concat rows))) = length rows * n_aug"
  shows "\<exists>output.
           validate_output net w True tta_mixing (T5 rows) = Inr output
         \<and> length output = length rows
         \<and> (\<forall>b < length rows. output ! b
               = (1 - tta_mixing) *\<^sub>R forward net w (T4 (concat rows)) ! (b * n_aug + (n_aug - 1))
                 + (tta_mixing / real (n_aug - 1)) *\<^sub>R
                     (\<Sum>v = 0..<n_aug - 1. forward net w (T4 (concat rows)) ! (b * n_aug + v)))
         \<and> validate_batch net w crit True tta_mixing (T5 rows, y)
               = bind_err (criterion_call crit output y) (\<lambda>l. bind_err (item l) (\<lambda>loss.
                   Inr (loss, count_correct (map (argmax net) output) y, length y)))"
proof -
  let ?out = "forward net w (T4 (concat rows))"
  let ?output = "map (\<lambda>b. tta_blend tta_mixing (take n_aug (drop (b * n_aug) ?out)))
                   [0..<length rows]"
  have n: "(case rows of [] \<Rightarrow> 0 | r # _ \<Rightarrow> length r) = n_aug"
    using assms(1,2) by (cases rows) auto
  have pos: "length rows * n_aug \<noteq> 0"
    using assms(1,3) by auto
  have vo: "validate_output net w True tta_mixing (T5 rows) = Inr ?output"
    using n pos assms(3,4) by (simp add: validate_output_def Let_def)
  have nth: "?output ! b
               = (1 - tta_mixing) *\<^sub>R ?out ! (b * n_aug + (n_aug - 1))
                 + (tta_mixing / real (n_aug - 1)) *\<^sub>R (\<Sum>v = 0..<n_aug - 1. ?out ! (b * n_aug + v))"
    if b: "b < length rows" for b
  proof -
    let ?views = "take n_aug (drop (b * n_aug) ?out)"
    have len: "length ?views = n_aug"
      using assms(4) b by (rule views_length)
    have v: "?views ! v = ?out ! (b * n_aug + v)" if "v < n_aug" for v
      using assms(4) b that by (rule views_nth)
    have "tta_blend tta_mixing ?views
            = (1 - tta_mixing) *\<^sub>R ?views ! (n_aug - 1)
              + (tta_mixing / real (n_aug - 1)) *\<^sub>R (\<Sum>v = 0..<n_aug - 1. ?views ! v)"
      using len assms(3) by (rule tta_blend_nth)
    also have "?views ! (n_aug - 1) = ?out ! (b * n_aug + (n_aug - 1))"
      using assms(3) by (intro v) simp
    also have "(\<Sum>v = 0..<n_aug - 1. ?views ! v) = (\<Sum>v = 0..<n_aug - 1. ?out ! (b * n_aug + v))"
    proof (rule sum.cong [OF refl])
      fix u assume "u \<in> {0..<n_aug - 1}"
      then have "u < n_aug" by simp
      then show "?views ! u = ?out ! (b * n_aug + u)" by (rule v)
    qed
    finally show ?thesis using b by simp
  qed
  have vb: "validate_batch net w crit True tta_mixing (T5 rows, y)
               = bind_err (criterion_call crit ?output y) (\<lambda>l. bind_err (item l) (\<lambda>loss.
                   Inr (loss, count_correct (map (argmax net) ?output) y, length y)))"
    by (simp only: validate_batch_def vo bind_err_simps Let_def prod.case)
  have "length ?output = length rows" by simp
  with vo nth vb show ?thesis by blast
qed

theorem validate_tta_blend_witness:
  "validate_output identity_net () True (3/5) (T5 [[0, 1, 3]]) = Inr [3/2]
   \<and> validate_batch identity_net () squared_error True (3/5) (T5 [[0, 1, 3]], [1])
       = Inr (1/4, 0, 1)"
proof -
  have out: "forward identity_net () (T4 [0, 1, 3]) = [0, 1, 3]"
    by (simp add: identity_net_def)
  have a: "[[0::real, 1, 3]] \<noteq> []" by simp
  have b: "\<forall>r \<in> set [[0::real, 1, 3]]. length r = 3" by simp
  have c: "(2::nat) \<le> 3" by simp
  have d: "length (forward identity_net () (T4 (concat [[0, 1, 3]]))) = length [[0::real, 1, 3]] * 3"
    by (simp add: out)
  from validate_tta_blend [OF a b c d, where tta_mixing = "3/5" and crit = squared_error
      and y = "[1]"]
  obtain outp :: "real list" where o: "validate_output identity_net () True (3/5) (T5 [[0, 1, 3]]) = Inr outp"
    "length outp = 1"
    "outp ! 0 = (1 - 3/5) *\<^sub>R [0, 1, 3::real] ! (0 * 3 + (3 - 1))
                 + ((3/5) / real (3 - 1)) *\<^sub>R (\<Sum>v = 0..<3 - 1. [0, 1, 3::real] ! (0 * 3 + v))"
    "validate_batch identity_net () squared_error True (3/5) (T5 [[0, 1, 3]], [1])
       = bind_err (criterion_call squared_error outp [1]) (\<lambda>l. bind_err (item l) (\<lambda>loss.
           Inr (loss, count_correct (map (argmax identity_net) outp) [1], length [1::int])))"
    by (auto simp: out)
  have s: "(\<Sum>v = 0..<3 - 1. [0, 1, 3::real] ! (0 * 3 + v)) = 1"
    by (simp add: numeral_2_eq_2)
  have "outp ! 0 = 3/2"
    unfolding o(3) s by simp
  with o(2) have e: "outp = [3/2]"
    by (cases outp) auto
  have "bind_err (criterion_call squared_error [3/2] [1]) (\<lambda>l. bind_err (item l) (\<lambda>loss.
           Inr (loss, count_correct (map (argmax identity_net) [3/2]) [1], length [1::int])))
        = Inr (1/4, 0, 1)"
    by (simp add: criterion_call_def per_example_def tensor_mean_def bind_err_def squared_error_def
        count_correct_def identity_net_def power2_eq_square)
  with o(1,4) e show ?thesis by simp
qed

text \<open>
  C3 as stated fails. The views do not count alike: with \<open>tta_mixing = 3/5\<close> and two
  views whose outputs are \<open>0\<close> and \<open>1\<close> the blend is \<open>2/5\<close>, the plain average \<open>1/2\<close>.
\<close>

theorem tta_not_equal_average:
  "validate_output identity_net () True (3/5) (T5 [[0, 1]]) = Inr [2/5]
   \<and> spec_tta_average (forward identity_net () (T4 [0, 1])) = 1/2
   \<and> validate_output identity_net () True (3/5) (T5 [[0, 1]])
       \<noteq> Inr [spec_tta_average (forward identity_net () (T4 [0, 1]))]"
  by (simp add: validate_output_def identity_net_def tta_blend_def spec_tta_average_def Let_def)

subsection \<open>The epoch loops\<close>

text \<open>
  What the loops accumulate: when \<open>validate\<close> or \<open>train\<close> returns, every batch has
  produced a result, the final loss is the sum of loss times batch size over the total
  number of examples, and the final accuracy is the sum of the counts over that total.
\<close>

lemma sums_Cons:
  "sum_n ((l, c, n) # rs) = n + sum_n rs"
  "sum_loss ((l, c, n) # rs) = l * real n + sum_loss rs"
  "sum_correct ((l, c, n) # rs) = c + sum_correct rs"
  by (simp_all add: sum_n_def sum_loss_def sum_correct_def)

lemma sums_Nil: "sum_n [] = 0" "sum_loss [] = 0" "sum_correct [] = 0"
  by (simp_all add: sum_n_def sum_loss_def sum_correct_def)

lemma add_batch_sel:
  "total_n (add_batch s l c n) = total_n s + n"
  "total_loss (add_batch s l c n) = total_loss s + l * real n"
  "total_correct (add_batch s l c n) = total_correct s + real c"
  by (simp_all add: add_batch_def)

lemma bind_err_Inr_iff:
  "bind_err m f = Inr r \<longleftrightarrow> (\<exists>v. m = Inr v \<and> f v = Inr r)"
  by (cases m) (simp_all add: bind_err_def)

lemma validate_loop_sums:
  assumes "validate_loop net w crit tta tta_mixing lf nb dl i s bs = Inr s'"
  shows "\<exists>rs. map (validate_batch net w crit tta tta_mixing) bs = map Inr rs
            \<and> total_n s' = total_n s + sum_n rs
            \<and> total_loss s' = total_loss s + sum_loss rs
            \<and> total_correct s' = total_correct s + real (sum_correct rs)"
  using assms
proof (induction bs arbitrary: i s)
  case Nil
  then have "s' = s" by simp
  then show ?case by (simp add: sums_Nil)
next
  case (Cons b bs)
  from Cons.prems obtain l c n where
    r: "validate_batch net w crit tta tta_mixing b = Inr (l, c, n)"
    and rest: "validate_loop net w crit tta tta_mixing lf nb dl (Suc i) (add_batch s l c n) bs = Inr s'"
    by (auto simp: bind_err_Inr_iff Let_def)
  from Cons.IH [OF rest] obtain rs where
    rs: "map (validate_batch net w crit tta tta_mixing) bs = map Inr rs"
      "total_n s' = total_n (add_batch s l c n) + sum_n rs"
      "total_loss s' = total_loss (add_batch s l c n) + sum_loss rs"
      "total_correct s' = total_correct (add_batch s l c n) + real (sum_correct rs)"
    by blast
  have "map (validate_batch net w crit tta tta_mixing) (b # bs) = map Inr ((l, c, n) # rs)"
    using r rs(1) by simp
  moreover have "total_n s' = total_n s + sum_n ((l, c, n) # rs)"
    using rs(2) by (simp add: add_batch_sel sums_Cons)
  moreover have "total_loss s' = total_loss s + sum_loss ((l, c, n) # rs)"
    using rs(3) by (simp add: add_batch_sel sums_Cons)
  moreover have "total_correct s' = total_correct s + real (sum_correct ((l, c, n) # rs))"
    using rs(4) by (simp add: add_batch_sel sums_Cons)
  ultimately show ?case by blast
qed

lemma validate_weighted_mean:
  assumes "validate net w dl crit tta tta_mixing lf = Inr (final_loss, final_acc)"
  shows "\<exists>rs. map (validate_batch net w crit tta tta_mixing) (batches dl) = map Inr rs
            \<and> 0 < sum_n rs
            \<and> final_loss = sum_loss rs / real (sum_n rs)
            \<and> final_acc = real (sum_correct rs) / real (sum_n rs)"
proof -
  from assms obtain s' where
    loop: "validate_loop net w crit tta tta_mixing lf (length (batches dl)) (dataset_len dl) 0
             \<lparr>total_n = 0, total_loss = 0, total_correct = 0\<rparr> (batches dl) = Inr s'"
    and fin: "final_stats s' = Inr (final_loss, final_acc)"
    by (auto simp: validate_def bind_err_Inr_iff)
  from validate_loop_sums [OF loop] obtain rs where
    rs: "map (validate_batch net w crit tta tta_mixing) (batches dl) = map Inr rs"
      "total_n s' = sum_n rs" "total_loss s' = sum_loss rs"
      "total_correct s' = real (sum_correct rs)"
    by auto
  from fin have "total_n s' \<noteq> 0"
    and "final_loss = total_loss s' / real (total_n s')"
    and "final_acc = total_correct s' / real (total_n s')"
    by (auto simp: final_stats_def split: if_splits)
  with rs show ?thesis by auto
qed

lemma train_loop_sums:
  assumes "train_loop net crit optimizer scheduler mixup alpha lf nb dl draws i w s bs = Inr (w', s')"
  shows "length (train_trace net crit optimizer scheduler mixup alpha draws i w bs) = length bs
       \<and> total_n s' = total_n s + sum_n (train_trace net crit optimizer scheduler mixup alpha draws i w bs)
       \<and> total_loss s' = total_loss s
            + sum_loss (train_trace net crit optimizer scheduler mixup alpha draws i w bs)
       \<and> total_correct s' = total_correct s
            + real (sum_correct (train_trace net crit optimizer scheduler mixup alpha draws i w bs))"
  using assms
proof (induction bs arbitrary: i w s)
  case Nil
  then have "s' = s" by simp
  then show ?case by (simp add: sums_Nil)
next
  case (Cons b bs)
  from Cons.prems obtain l c n w1 where
    r: "train_batch net crit optimizer scheduler mixup alpha (draws i) w b = Inr ((l, c, n), w1)"
    and rest: "train_loop net crit optimizer scheduler mixup alpha lf nb dl draws (Suc i) w1
                 (add_batch s l c n) bs = Inr (w', s')"
    by (auto simp: bind_err_Inr_iff Let_def)
  let ?t = "train_trace net crit optimizer scheduler mixup alpha draws (Suc i) w1 bs"
  have tr: "train_trace net crit optimizer scheduler mixup alpha draws i w (b # bs) = (l, c, n) # ?t"
    using r by simp
  from Cons.IH [OF rest] have ih:
    "length ?t = length bs"
    "total_n s' = total_n (add_batch s l c n) + sum_n ?t"
    "total_loss s' = total_loss (add_batch s l c n) + sum_loss ?t"
    "total_correct s' = total_correct (add_batch s l c n) + real (sum_correct ?t)"
    by blast+
  show ?case
    unfolding tr using ih by (simp add: add_batch_sel sums_Cons)
qed

lemma train_weighted_mean:
  assumes "train net w dl crit optimizer scheduler mixup alpha lf draws
             = Inr ((final_loss, final_acc), w')"
  shows "length (train_trace net crit optimizer scheduler mixup alpha draws 0 w (batches dl))
           = length (batches dl)
       \<and> 0 < sum_n (train_trace net crit optimizer scheduler mixup alpha draws 0 w (batches dl))
       \<and> final_loss
           = sum_loss (train_trace net crit optimizer scheduler mixup alpha draws 0 w (batches dl))
             / real (sum_n (train_trace net crit optimizer scheduler mixup alpha draws 0 w (batches dl)))
       \<and> final_acc
           = real (sum_correct (train_trace net crit optimizer scheduler mixup alpha draws 0 w (batches dl)))
             / real (sum_n (train_trace net crit optimizer scheduler mixup alpha draws 0 w (batches dl)))"
proof -
  let ?t = "train_trace net crit optimizer scheduler mixup alpha draws 0 w (batches dl)"
  from assms obtain s' where
    loop: "train_loop net crit optimizer scheduler mixup alpha lf (length (batches dl))
             (dataset_len dl) draws 0 w \<lparr>total_n = 0, total_loss = 0, total_correct = 0\<rparr>
             (batches dl) = Inr (w', s')"
    and fin: "final_stats s' = Inr (final_loss, final_acc)"
    by (auto simp: train_def bind_err_Inr_iff)
  from train_loop_sums [OF loop] have t:
    "length ?t = length (batches dl)"
    "total_n s' = sum_n ?t" "total_loss s' = sum_loss ?t" "total_correct s' = real (sum_correct ?t)"
    by auto
  from fin have "total_n s' \<noteq> 0"
    and "final_loss = total_loss s' / real (total_n s')"
    and "final_acc = total_correct s' / real (total_n s')"
    by (auto simp: final_stats_def split: if_splits)
  with t show ?thesis by auto
qed

lemma log_progress_ok:
  assumes "lf \<noteq> 0" and "0 < dl" and "0 < nb" and "0 < total_n s"
  shows "\<exists>v. log_progress lf i nb dl s = Inr v"
  using assms by (simp add: log_progress_def)

lemma validate_loop_returns:
  assumes "\<forall>b \<in> set bs. \<exists>l c n. validate_batch net w crit tta tta_mixing b = Inr (l, c, n) \<and> 0 < n"
    and "lf \<noteq> 0" and "0 < dl" and "0 < nb"
  shows "\<exists>s'. validate_loop net w crit tta tta_mixing lf nb dl i s bs = Inr s'"
  using assms(1)
proof (induction bs arbitrary: i s)
  case Nil
  show ?case by simp
next
  case (Cons b bs)
  from Cons.prems obtain l c n where
    r: "validate_batch net w crit tta tta_mixing b = Inr (l, c, n)" and n: "0 < n"
    by auto
  have "0 < total_n (add_batch s l c n)"
    using n by (simp add: add_batch_sel)
  from log_progress_ok [OF assms(2,3,4) this]
  obtain v where lg: "log_progress lf i nb dl (add_batch s l c n) = Inr v"
    by blast
  from Cons.prems have "\<forall>b \<in> set bs. \<exists>l c n. validate_batch net w crit tta tta_mixing b = Inr (l, c, n) \<and> 0 < n"
    by simp
  from Cons.IH [OF this] obtain s' where
    "validate_loop net w crit tta tta_mixing lf nb dl (Suc i) (add_batch s l c n) bs = Inr s'"
    by blast
  then show ?case
    using r lg by (simp add: bind_err_simps Let_def)
qed

lemma sum_n_pos:
  assumes "rs \<noteq> []" and "\<forall>r \<in> set rs. 0 < snd (snd r)"
  shows "0 < sum_n rs"
  using assms by (cases rs) (auto simp: sum_n_def)

lemma validate_returns:
  assumes "batches dl \<noteq> []"
    and "\<forall>b \<in> set (batches dl).
           \<exists>l c n. validate_batch net w crit tta tta_mixing b = Inr (l, c, n) \<and> 0 < n"
    and "lf \<noteq> 0" and "0 < dataset_len dl"
  shows "\<exists>final_loss final_acc. validate net w dl crit tta tta_mixing lf = Inr (final_loss, final_acc)"
proof -
  have nb: "0 < length (batches dl)"
    using assms(1) by simp
  from validate_loop_returns [OF assms(2,3,4) nb]
  obtain s' where
    loop: "validate_loop net w crit tta tta_mixing lf (length (batches dl)) (dataset_len dl) 0
             \<lparr>total_n = 0, total_loss = 0, total_correct = 0\<rparr> (batches dl) = Inr s'"
    by blast
  from validate_loop_sums [OF loop] obtain rs where
    rs: "map (validate_batch net w crit tta tta_mixing) (batches dl) = map Inr rs"
      "total_n s' = sum_n rs"
    by auto
  have len: "length rs = length (batches dl)"
    using rs(1) by (metis length_map)
  have "\<forall>r \<in> set rs. 0 < snd (snd r)"
  proof
    fix r assume "r \<in> set rs"
    then obtain k where k: "k < length rs" "rs ! k = r"
      by (auto simp: in_set_conv_nth)
    then have "validate_batch net w crit tta tta_mixing (batches dl ! k) = Inr r"
      using rs(1) len by (metis nth_map)
    moreover have "batches dl ! k \<in> set (batches dl)"
      using k(1) len by simp
    ultimately show "0 < snd (snd r)"
      using assms(2) by fastforce
  qed
  moreover have "rs \<noteq> []"
    using len assms(1) by auto
  ultimately have "0 < sum_n rs"
    by (intro sum_n_pos)
  then have "total_n s' \<noteq> 0"
    using rs(2) by simp
  then show ?thesis
    using loop by (simp add: validate_def final_stats_def bind_err_simps)
qed

text \<open>
  Without mixup a batch of \<open>train\<close> yields the plain mean loss and the number of
  predictions equal to their label, as a batch of \<open>validate\<close> does.
\<close>

lemma train_batch_no_mixup:
  assumes "length (snd d) = length x" and "length y = length x"
  shows "train_batch net crit optimizer scheduler False alpha d w (x, y)
           = bind_err (bind_err (criterion_call crit (forward net w (T4 x)) y) tensor_mean)
               (\<lambda>loss. Inr ((loss, count_correct (map (argmax net) (forward net w (T4 x))) y,
                              length y),
                             (case scheduler of
                                None \<Rightarrow> optimizer w (mixup_data (fst d) (snd d) x y crit 0)
                              | Some sched \<Rightarrow>
                                  sched (optimizer w (mixup_data (fst d) (snd d) x y crit 0)))))"
proof -
  let ?m = "mixup_data (fst d) (snd d) x y crit 0"
  have a: "(0::real) \<le> 0" by simp
  have iy: "length (snd d) = length y" using assms by simp
  have mx: "mixed_x ?m = x"
    using a assms(1) by (rule mixed_x_no_mixup)
  have cr: "mixup_criterion ?m pred = bind_err (criterion_call crit pred y) tensor_mean" for pred
    using a iy by (rule mixup_criterion_no_mixup)
  have ac: "mixup_acc ?m p = count_correct p y" for p
    using a iy by (rule mixup_acc_no_mixup)
  show ?thesis
    by (simp add: train_batch_def Let_def mx cr ac)
qed

lemma train_loop_returns:
  assumes "\<forall>b \<in> set bs. \<forall>i w. \<exists>l c n w'.
              train_batch net crit optimizer scheduler mixup alpha (draws i) w b = Inr ((l, c, n), w')
              \<and> 0 < n"
    and "lf \<noteq> 0" and "0 < dl" and "0 < nb"
  shows "\<exists>w' s'. train_loop net crit optimizer scheduler mixup alpha lf nb dl draws i w s bs
           = Inr (w', s')"
  using assms(1)
proof (induction bs arbitrary: i w s)
  case Nil
  show ?case by simp
next
  case (Cons b bs)
  from Cons.prems obtain l c n w1 where
    r: "train_batch net crit optimizer scheduler mixup alpha (draws i) w b = Inr ((l, c, n), w1)"
    and n: "0 < n"
    by (metis list.set_intros(1))
  have "0 < total_n (add_batch s l c n)"
    using n by (simp add: add_batch_sel)
  from log_progress_ok [OF assms(2,3,4) this]
  obtain v where lg: "log_progress lf i nb dl (add_batch s l c n) = Inr v"
    by blast
  from Cons.prems have "\<forall>b \<in> set bs. \<forall>i w. \<exists>l c n w'.
              train_batch net crit optimizer scheduler mixup alpha (draws i) w b = Inr ((l, c, n), w')
              \<and> 0 < n"
    by simp
  from Cons.IH [OF this] obtain w' s' where
    "train_loop net crit optimizer scheduler mixup alpha lf nb dl draws (Suc i) w1
       (add_batch s l c n) bs = Inr (w', s')"
    by blast
  then show ?case
    using r lg by (simp add: bind_err_simps Let_def)
qed

text \<open>
  C10: on a dataloader without batches neither loop runs, the total is \<open>0\<close>, and the
  final division raises \<open>ZeroDivisionError\<close> in \<open>train\<close> and in \<open>validate\<close>.
\<close>

theorem empty_dataloader_raises:
  "train net w \<lparr>batches = [], dataset_len = n\<rparr> crit optimizer scheduler mixup alpha lf draws
     = Inl ZeroDivisionError
   \<and> validate vnet vw \<lparr>batches = [], dataset_len = vn\<rparr> vcrit tta tta_mixing vlf
     = Inl ZeroDivisionError"
  by (simp add: train_def validate_def final_stats_def bind_err_def)

text \<open>
  C4 (the code departs from it): with \<open>mixup=True\<close> the labels mixed by \<open>lam\<close> of shape
  \<open>(n, 1, 1, 1)\<close> form an \<open>n \<times> n\<close> table, and \<open>mixup_acc\<close> counts the matches of the
  prediction against every row. On one batch of two examples that both carry label \<open>0\<close>
  and are both predicted \<open>0\<close> it counts four, and \<open>train\<close> returns the accuracy \<open>2\<close>,
  where two correct predictions out of two make \<open>1\<close>.
\<close>

theorem train_mixup_accuracy_exceeds_one:
  "train identity_net () \<lparr>batches = [([1, 2], [0, 0])], dataset_len = 2\<rparr> squared_error
      (\<lambda>w m. w) None True (2/5) 50 (\<lambda>i. ([9/10, 1/2], [1, 0]))
     = Inr ((173/100, 2), ())
   \<and> map (argmax identity_net) (forward identity_net () (T4 [11/10, 3/2])) = [0, 0]
   \<and> count_correct [0, 0] [0, 0] = 2"
  by (simp add: train_def train_batch_def final_stats_def bind_err_def mixup_data_def Let_def
      gather_def mix_images_def mix_flat_def count_equal_def criterion_call_def per_example_def
      tensor_mean_def squared_error_def identity_net_def add_batch_def log_progress_def
      count_correct_def power2_eq_square)

subsection \<open>get\_param\_lr\_maps\<close>

lemma geom_point_formula:
  assumes "0 < start * stop" and "2 \<le> num" and "i < num"
  shows "geom_point start stop num i = start * (stop / start) powr (real i / real (num - 1))"
proof -
  have nz: "start \<noteq> 0" "stop \<noteq> 0" using assms(1) by auto
  have pos: "0 < stop / start"
    using assms(1) by (auto simp: zero_less_divide_iff zero_less_mult_iff)
  show ?thesis
  proof (cases "i = 0")
    case True
    then show ?thesis using pos nz by (simp add: geom_point_def)
  next
    case False
    show ?thesis
    proof (cases "i = num - 1")
      case True
      then have e: "real i / real (num - 1) = 1" using False by simp
      have "0 \<le> stop / start"
        using pos by (rule less_imp_le)
      then have p1: "(stop / start) powr 1 = stop / start"
        by (rule powr_one)
      have "start * (stop / start) powr (real i / real (num - 1)) = start * (stop / start)"
        by (simp only: e p1)
      also have "\<dots> = stop"
        using nz by simp
      finally have "start * (stop / start) powr (real i / real (num - 1)) = stop" .
      then show ?thesis using True False by (simp add: geom_point_def)
    next
      case F2: False
      then show ?thesis using False by (simp add: geom_point_def)
    qed
  qed
qed

lemma geom_point_ratio:
  assumes "0 < start * stop" and "2 \<le> num" and "Suc i < num"
  shows "geom_point start stop num (Suc i)
           = geom_point start stop num i * (stop / start) powr (1 / real (num - 1))"
proof -
  have "real (Suc i) / real (num - 1) = real i / real (num - 1) + 1 / real (num - 1)"
    by (simp add: add_divide_distrib)
  then have "(stop / start) powr (real (Suc i) / real (num - 1))
           = (stop / start) powr (real i / real (num - 1)) * (stop / start) powr (1 / real (num - 1))"
    by (simp only: powr_add)
  moreover have "i < num" using assms(3) by simp
  ultimately show ?thesis
    using geom_point_formula [OF assms(1,2), of i] geom_point_formula [OF assms(1,2,3)]
    by simp
qed

lemma geomspace_same_sign:
  "0 < start * stop \<Longrightarrow> geomspace start stop num = Inr (map (geom_point start stop num) [0..<num])"
  by (auto simp: geomspace_def not_less [symmetric])

lemma body_groups_nth:
  assumes "length lrs = length body" and "i < length body"
  shows "map (\<lambda>((_, param), lr). \<lparr>params = Param param, lr = lr\<rparr>) (zip body lrs) ! i
           = \<lparr>params = Param (snd (body ! i)), lr = lrs ! i\<rparr>"
  using assms by (simp add: case_prod_unfold)

lemma body_parameters_small_model:
  "body_parameters small_model = [(''conv1.weight'', 0), (''layer1.0.weight'', 1)]"
  by (simp add: body_parameters_def small_model_def first_component_def)

text \<open>
  C2 (as the code has it): for a pair \<open>(lower, upper)\<close> with \<open>base_lr * lower\<close> and
  \<open>base_lr * upper\<close> nonzero and of one sign, the result has one group per body
  parameter, in order, each holding that parameter; their learning rates start at
  \<open>base_lr * lower\<close>, grow by the constant ratio \<open>(upper / lower) ** (1 / (n - 1))\<close> and,
  with at least two body parameters, end at \<open>base_lr * upper\<close>; the last group holds the
  \<open>out_fc\<close> parameters with learning rate \<open>base_lr\<close>.
\<close>

theorem get_param_lr_maps_pair:
  assumes "0 < (base_lr * lower) * (base_lr * upper)"
  shows "\<exists>groups.
           get_param_lr_maps model base_lr (PairFactor lower upper) = Inr groups
         \<and> length groups = length (body_parameters model) + 1
         \<and> (\<forall>i < length (body_parameters model). params (groups ! i) = Param (snd (body_parameters model ! i)))
         \<and> (1 \<le> length (body_parameters model) \<longrightarrow> lr (groups ! 0) = base_lr * lower)
         \<and> (2 \<le> length (body_parameters model)
               \<longrightarrow> lr (groups ! (length (body_parameters model) - 1)) = base_lr * upper)
         \<and> (\<forall>i. Suc i < length (body_parameters model)
               \<longrightarrow> lr (groups ! Suc i)
                     = lr (groups ! i) * (upper / lower) powr (1 / real (length (body_parameters model) - 1)))
         \<and> groups ! length (body_parameters model)
               = \<lparr>params = ParamList (out_fc_parameters model), lr = base_lr\<rparr>"
proof -
  let ?body = "body_parameters model"
  let ?n = "length ?body"
  let ?start = "base_lr * lower" and ?stop = "base_lr * upper"
  let ?lrs = "map (geom_point ?start ?stop ?n) [0..<?n]"
  let ?head = "\<lparr>params = ParamList (out_fc_parameters model), lr = base_lr\<rparr>"
  let ?bg = "map (\<lambda>((_, param), lr). \<lparr>params = Param param, lr = lr\<rparr>) (zip ?body ?lrs)"
  let ?groups = "?bg @ [?head]"
  have nz: "base_lr \<noteq> 0" using assms by auto
  have ratio: "?stop / ?start = upper / lower" using nz by simp
  have res: "get_param_lr_maps model base_lr (PairFactor lower upper) = Inr ?groups"
    using geomspace_same_sign [OF assms, of ?n]
    by (simp add: get_param_lr_maps_def bind_err_simps)
  have lbg: "length ?bg = ?n" by simp
  have nth: "?groups ! i = \<lparr>params = Param (snd (?body ! i)), lr = geom_point ?start ?stop ?n i\<rparr>"
    if "i < ?n" for i
  proof -
    have "?groups ! i = ?bg ! i"
      using that lbg by (simp only: nth_append if_True)
    also have "\<dots> = \<lparr>params = Param (snd (?body ! i)), lr = ?lrs ! i\<rparr>"
      using that by (intro body_groups_nth) simp_all
    finally show ?thesis using that by simp
  qed
  have p: "\<forall>i < ?n. params (?groups ! i) = Param (snd (?body ! i))"
    by (simp add: nth)
  have first: "1 \<le> ?n \<longrightarrow> lr (?groups ! 0) = ?start"
  proof
    assume "1 \<le> ?n"
    then have "0 < ?n" by linarith
    from nth [OF this] show "lr (?groups ! 0) = ?start"
      by (simp add: geom_point_def)
  qed
  have lst: "2 \<le> ?n \<longrightarrow> lr (?groups ! (?n - 1)) = ?stop"
  proof
    assume n2: "2 \<le> ?n"
    then have "?n - 1 < ?n" by linarith
    from nth [OF this] show "lr (?groups ! (?n - 1)) = ?stop"
      using n2 by (simp add: geom_point_def)
  qed
  have step: "\<forall>i. Suc i < ?n \<longrightarrow> lr (?groups ! Suc i)
                     = lr (?groups ! i) * (upper / lower) powr (1 / real (?n - 1))"
  proof (intro allI impI)
    fix i assume i: "Suc i < ?n"
    then have i': "i < ?n" and n2: "2 \<le> ?n" by linarith+
    have "geom_point ?start ?stop ?n (Suc i)
            = geom_point ?start ?stop ?n i * (?stop / ?start) powr (1 / real (?n - 1))"
      using assms n2 i by (rule geom_point_ratio)
    then show "lr (?groups ! Suc i)
                 = lr (?groups ! i) * (upper / lower) powr (1 / real (?n - 1))"
      unfolding nth [OF i] nth [OF i'] ratio by simp
  qed
  have "?groups ! length ?bg = ?head"
    by (rule nth_append_length)
  then have hd: "?groups ! ?n = ?head"
    by (simp only: lbg)
  have len: "length ?groups = ?n + 1"
    by simp
  from res len p first lst step hd show ?thesis by blast
qed

theorem get_param_lr_maps_pair_witness:
  "get_param_lr_maps small_model (1/10) (PairFactor (1/4) 1)
     = Inr [\<lparr>params = Param 0, lr = 1/40\<rparr>, \<lparr>params = Param 1, lr = 1/10\<rparr>,
            \<lparr>params = ParamList [2, 3], lr = 1/10\<rparr>]
   \<and> (\<exists>groups. get_param_lr_maps small_model (1/10) (PairFactor (1/4) 1) = Inr groups
         \<and> length groups = 3 \<and> lr (groups ! 0) = 1/40 \<and> lr (groups ! 1) = 1/10
         \<and> lr (groups ! 1) = lr (groups ! 0) * 4 powr 1
         \<and> groups ! 2 = \<lparr>params = ParamList [2, 3], lr = 1/10\<rparr>)"
proof -
  have a: "0 < ((1/10) * (1/4)) * ((1/10) * (1::real))" by simp
  have n: "length (body_parameters small_model) = 2" by (simp add: body_parameters_small_model)
  have hd: "out_fc_parameters small_model = [2, 3]" by (simp add: small_model_def)
  from get_param_lr_maps_pair [OF a, of small_model]
  obtain groups where r: "get_param_lr_maps small_model (1/10) (PairFactor (1/4) 1) = Inr groups"
    and l: "length groups = length (body_parameters small_model) + 1"
    and f: "1 \<le> length (body_parameters small_model) \<longrightarrow> lr (groups ! 0) = (1/10) * (1/4)"
    and u: "2 \<le> length (body_parameters small_model)
              \<longrightarrow> lr (groups ! (length (body_parameters small_model) - 1)) = (1/10) * 1"
    and st: "\<forall>i. Suc i < length (body_parameters small_model)
               \<longrightarrow> lr (groups ! Suc i)
                     = lr (groups ! i) * (1 / (1/4)) powr (1 / real (length (body_parameters small_model) - 1))"
    and h: "groups ! length (body_parameters small_model)
              = \<lparr>params = ParamList (out_fc_parameters small_model), lr = 1/10\<rparr>"
    by blast
  have l': "length groups = 3" using l n by simp
  have f': "lr (groups ! 0) = 1/40" using f n by simp
  have u': "lr (groups ! 1) = 1/10" using u n by simp
  have "Suc 0 < length (body_parameters small_model)" using n by simp
  with st have "lr (groups ! Suc 0)
       = lr (groups ! 0) * (1 / (1/4)) powr (1 / real (length (body_parameters small_model) - 1))"
    by blast
  then have st': "lr (groups ! 1) = lr (groups ! 0) * 4 powr 1" using n by simp
  have h': "groups ! 2 = \<lparr>params = ParamList [2, 3], lr = 1/10\<rparr>"
    using h n hd by simp
  have e: "get_param_lr_maps small_model (1/10) (PairFactor (1/4) 1)
     = Inr [\<lparr>params = Param 0, lr = 1/40\<rparr>, \<lparr>params = Param 1, lr = 1/10\<rparr>,
            \<lparr>params = ParamList [2, 3], lr = 1/10\<rparr>]"
    by (simp add: get_param_lr_maps_def body_parameters_def small_model_def first_component_def
        geomspace_def geom_point_def bind_err_def)
  from e r l' f' u' st' h' show ?thesis by blast
qed

lemma get_param_lr_maps_zero_endpoint:
  assumes "base_lr * lower = 0 \<or> base_lr * upper = 0"
  shows "get_param_lr_maps model base_lr (PairFactor lower upper) = Inl ValueError"
  using assms by (auto simp: get_param_lr_maps_def geomspace_def bind_err_def)

text \<open>
  C2 as stated fails, not holding for every \<open>base_lr\<close> and pair: a zero endpoint, here the lower factor \<open>0\<close>, makes
  \<open>np.geomspace\<close> raise \<open>ValueError\<close>.
\<close>

theorem get_param_lr_maps_pair_zero:
  "get_param_lr_maps small_model (1/1000) (PairFactor 0 (1/10)) = Inl ValueError"
  by (simp add: get_param_lr_maps_def geomspace_def bind_err_def)

lemma get_param_lr_maps_float:
  "get_param_lr_maps model base_lr (FloatFactor f)
     = Inr [\<lparr>params = NamedList (body_parameters model), lr = base_lr * f\<rparr>,
            \<lparr>params = ParamList (out_fc_parameters model), lr = base_lr\<rparr>]"
  by (simp add: get_param_lr_maps_def)

text \<open>
  C5 (the code departs from it): with a float factor the first group does not hold the
  body parameters but the (name, parameter) tuples of \<open>named_parameters()\<close>; the pair
  branch unpacks the tuple and stores the parameter.
\<close>

theorem get_param_lr_maps_float_named:
  "get_param_lr_maps small_model (1/10) (FloatFactor (1/2))
     = Inr [\<lparr>params = NamedList [(''conv1.weight'', 0), (''layer1.0.weight'', 1)], lr = 1/20\<rparr>,
            \<lparr>params = ParamList [2, 3], lr = 1/10\<rparr>]
   \<and> (\<exists>groups. get_param_lr_maps small_model (1/10) (PairFactor (1/2) (1/2)) = Inr groups
         \<and> params (groups ! 0) = Param 0)"
  by (simp add: get_param_lr_maps_def body_parameters_def small_model_def first_component_def
      geomspace_def geom_point_def bind_err_def)

subsection \<open>setup\_optimizer\_and\_scheduler\<close>


subsection \<open>checkpoint\_state\<close>







end
